theory Spec2Isabelle
  imports Main "HOL-Library.AList" "HOL-Library.Sublist"
begin

unbundle bit_operations_syntax

section \<open>Hiding yield from the model specification: the notebooks' code\<close>

text \<open>
  The two notebooks (\<^verbatim>\<open>00-prototype\<close> and \<^verbatim>\<open>01-iteration\<close>) hold the same helper functions
  \<^verbatim>\<open>uncompile\<close>, \<^verbatim>\<open>parse_snippet\<close>, \<^verbatim>\<open>recompile\<close> and the same driver \<^verbatim>\<open>interact\<close>; they differ
  in the class \<^verbatim>\<open>FunctionToGenerator\<close>. Each Python function is a HOL function of the same
  name. An exception is a value of the type \<open>exn\<close> and a function that can raise returns
  \<open>exn + 'a\<close>, with \<open>Inl\<close> for the exception. What the code asks of the interpreter and its
  library (\<^verbatim>\<open>inspect.getsourcelines\<close>, \<^verbatim>\<open>re.match\<close>, the builtin \<^verbatim>\<open>compile\<close>, \<^verbatim>\<open>globals()\<close>)
  is a parameter of the model. Line numbers and column offsets of syntax tree nodes and the
  messages that \<^verbatim>\<open>print\<close> writes are left out.
\<close>

subsection \<open>Exceptions\<close>

datatype exn =
    NotImplementedError string
  | RuntimeError string
  | DuplicateNames string "string set"
  | NameError string
  | KeyError string
  | AttributeError string
  | IndexError
  | IOError
  | IndentationError
  | SyntaxError
  | OtherError string

text \<open>
  \<open>DuplicateNames n seen\<close> is the \<^verbatim>\<open>RuntimeError\<close> that \<^verbatim>\<open>interact\<close> builds for a repeated name:
  its message is formatted from the name \<open>n\<close> and the set \<open>seen\<close>. \<open>OtherError\<close> stands for
  any other exception that the body of a model or the library raises. The specification
  names the failures by kind: \<^verbatim>\<open>NotSupported\<close> is the \<^verbatim>\<open>NotImplementedError\<close> of \<^verbatim>\<open>uncompile\<close>,
  \<^verbatim>\<open>NotAvailable\<close> its \<^verbatim>\<open>RuntimeError\<close>, \<^verbatim>\<open>MalformedInput\<close> the \<^verbatim>\<open>RuntimeError\<close> of \<^verbatim>\<open>recompile\<close>
  and \<^verbatim>\<open>DuplicateName\<close> the \<^verbatim>\<open>RuntimeError\<close> of \<^verbatim>\<open>interact\<close>.
\<close>

subsection \<open>Syntax trees\<close>

text \<open>
  The nodes of Python's \<^verbatim>\<open>ast\<close> module that the visitor meets. A \<^verbatim>\<open>Call\<close> has the called
  expression, the positional arguments and the keyword arguments (a keyword without a name is
  \<^verbatim>\<open>**kwargs\<close>). A \<^verbatim>\<open>FunctionDef\<close> has its name, the names of its parameters, its body and its
  decorator list.
\<close>

datatype expr =
    Name string
  | Attribute expr string
  | Call expr "expr list" "(string option \<times> expr) list"
  | Yield "expr option"
  | YieldFrom expr
  | Num int
  | Str string
  | BinOp expr string expr
  | Subscript expr expr

datatype stmt =
    FunctionDef string "string list" "stmt list" "expr list"
  | Assign "expr list" expr
  | AugAssign expr string expr
  | AnnAssign expr expr "expr option"
  | Return "expr option"
  | Expr expr
  | With "(expr \<times> expr option) list" "stmt list"
  | If expr "stmt list" "stmt list"
  | For expr expr "stmt list" "stmt list"
  | While expr "stmt list" "stmt list"
  | Pass

datatype module_ast = Module (body: "stmt list")

fun is_FunctionDef :: "stmt \<Rightarrow> bool" where
  "is_FunctionDef (FunctionDef n args b decorator_list) = True"
| "is_FunctionDef s = False"

fun is_Call :: "expr \<Rightarrow> bool" where
  "is_Call (Call function args keywords) = True"
| "is_Call v = False"

text \<open>The attribute \<^verbatim>\<open>body\<close> of a statement node; a node without one raises.\<close>

fun stmt_body :: "stmt \<Rightarrow> exn + stmt list" where
  "stmt_body (FunctionDef n args b decorator_list) = Inr b"
| "stmt_body (With items b) = Inr b"
| "stmt_body (If test b orelse) = Inr b"
| "stmt_body (For target iter b orelse) = Inr b"
| "stmt_body (While test b orelse) = Inr b"
| "stmt_body s = Inl (AttributeError ''body'')"

subsection \<open>The interpreter and its library\<close>

record codeobj =
  co_flags :: nat
  co_freevars :: "string list"
  co_name :: string
  co_filename :: string
  co_names :: "string list"

text \<open>
  \<open>getsourcelines\<close> is \<^verbatim>\<open>inspect.getsourcelines\<close> (the lines and the first line number, or the
  exception it raises; \<open>IOError\<close> is Python 3's \<^verbatim>\<open>OSError\<close>). \<open>re_match\<close> is \<^verbatim>\<open>re.match\<close> with the
  pattern of \<^verbatim>\<open>uncompile\<close>, giving group 1 of a match. \<open>future\<close> lists the integer entries of
  \<^verbatim>\<open>vars(__future__)\<close>. \<open>compile_source\<close> is the builtin \<^verbatim>\<open>compile\<close> on a text with the flag
  \<^verbatim>\<open>PyCF_ONLY_AST\<close> (it parses), \<open>compile_ast\<close> is \<^verbatim>\<open>compile\<close> on a tree; both take the file
  name, the mode and the flags.
\<close>

record python =
  getsourcelines :: "codeobj \<Rightarrow> exn + string list \<times> int"
  re_match :: "string \<Rightarrow> string option"
  future :: "(string \<times> nat) list"
  compile_source :: "string \<Rightarrow> string \<Rightarrow> string \<Rightarrow> nat \<Rightarrow> exn + module_ast"
  compile_ast :: "module_ast \<Rightarrow> string \<Rightarrow> string \<Rightarrow> nat \<Rightarrow> exn + codeobj"

definition CO_NESTED :: nat where
  "CO_NESTED = 16"

definition PyCF_ONLY_AST :: nat where
  "PyCF_ONLY_AST = 1024"

definition PyCF_MASK :: "python \<Rightarrow> nat" where
  "PyCF_MASK py = sum_list (map snd (filter (\<lambda>kv. prefix ''CO_FUTURE'' (fst kv)) (future py)))"

subsection \<open>uncompile\<close>

datatype source = Text string | Tree module_ast

record uncompiled =
  source :: source
  filename :: string
  mode :: string
  flags :: nat
  firstlineno :: int
  privateprefix :: "string option"

text \<open>The loop over \<^verbatim>\<open>c.co_names\<close>: the first name that matches gives the prefix.\<close>

fun find_privateprefix :: "(string \<Rightarrow> string option) \<Rightarrow> string list \<Rightarrow> string option" where
  "find_privateprefix m [] = None"
| "find_privateprefix m (n # ns) =
     (case m n of Some g \<Rightarrow> Some g | None \<Rightarrow> find_privateprefix m ns)"

definition uncompile :: "python \<Rightarrow> codeobj \<Rightarrow> exn + uncompiled" where
  "uncompile py c =
     (if 0 < (co_flags c AND CO_NESTED) \<or> co_freevars c \<noteq> []
      then Inl (NotImplementedError ''Nested functions not supported'')
      else if co_name c = ''<lambda>''
      then Inl (NotImplementedError ''Lambda functions not supported'')
      else if co_filename c = ''<string>''
      then Inl (NotImplementedError ''Code without source file not supported'')
      else
        (case getsourcelines py c of
           Inl e \<Rightarrow>
             if e = IOError then Inl (RuntimeError ''Source code not available'') else Inl e
         | Inr (lines, n) \<Rightarrow>
             Inr \<lparr>source = Text (concat lines), filename = co_filename c, mode = ''exec'',
                  flags = co_flags c AND PyCF_MASK py, firstlineno = n,
                  privateprefix = find_privateprefix (re_match py) (co_names c)\<rparr>))"

subsection \<open>parse_snippet and recompile\<close>

definition newline :: string where
  "newline = [CHR 0x0A]"

text \<open>
  \<^verbatim>\<open>parse_snippet\<close> parses the text behind an empty line; on an \<^verbatim>\<open>IndentationError\<close> it parses
  the text behind the line \<^verbatim>\<open>with 0:\<close> and takes the body of the first statement of the result.
  It checks nothing about the statements it returns.
\<close>

definition parse_snippet ::
  "python \<Rightarrow> string \<Rightarrow> string \<Rightarrow> string \<Rightarrow> nat \<Rightarrow> int \<Rightarrow> exn + module_ast" where
  "parse_snippet py src fname md fl lineno =
     (case compile_source py (newline @ src) fname md (fl OR PyCF_ONLY_AST) of
        Inr a \<Rightarrow> Inr a
      | Inl e \<Rightarrow>
          if e = IndentationError
          then
            (case compile_source py (''with 0:'' @ newline @ src) fname md (fl OR PyCF_ONLY_AST) of
               Inl e' \<Rightarrow> Inl e'
             | Inr a \<Rightarrow>
                 (case body a of
                    [] \<Rightarrow> Inl IndexError
                  | node # rest \<Rightarrow>
                      (case stmt_body node of Inl e' \<Rightarrow> Inl e' | Inr b \<Rightarrow> Inr (Module b))))
          else Inl e)"

definition recompile ::
  "python \<Rightarrow> source \<Rightarrow> string \<Rightarrow> string \<Rightarrow> nat \<Rightarrow> int \<Rightarrow> exn + codeobj" where
  "recompile py src fname md fl lineno =
     (case (case src of Tree a \<Rightarrow> Inr a | Text s \<Rightarrow> parse_snippet py s fname md fl lineno) of
        Inl e \<Rightarrow> Inl e
      | Inr a \<Rightarrow>
          (case body a of
             [] \<Rightarrow> Inl IndexError
           | node # rest \<Rightarrow>
               if is_FunctionDef node then compile_ast py a fname md fl
               else Inl (RuntimeError ''Expecting function AST node'')))"

subsection \<open>FunctionToGenerator\<close>

text \<open>
  What \<^verbatim>\<open>globals()\<close> holds: an object has a class, as far as the two \<^verbatim>\<open>isinstance\<close> tests of the
  visitor tell (a distribution class is an instance of \<^verbatim>\<open>_DistributionMeta\<close>, a decorated model
  is an instance of \<^verbatim>\<open>Model\<close>), and attributes.
\<close>

datatype pyclass = DistributionMeta | Model | OtherClass

datatype pyobj = PyObj pyclass "(string \<times> pyobj) list"

type_synonym globals = "string \<rightharpoonup> pyobj"

fun isinstance :: "pyobj \<Rightarrow> pyclass \<Rightarrow> bool" where
  "isinstance (PyObj c attrs) c' = (c = c')"

fun getattr :: "pyobj \<Rightarrow> string \<Rightarrow> exn + pyobj" where
  "getattr (PyObj c attrs) n =
     (case map_of attrs n of None \<Rightarrow> Inl (AttributeError n) | Some v \<Rightarrow> Inr v)"

definition getitem :: "globals \<Rightarrow> string \<Rightarrow> exn + pyobj" where
  "getitem g n = (case g n of None \<Rightarrow> Inl (KeyError n) | Some v \<Rightarrow> Inr v)"

text \<open>The loop \<^verbatim>\<open>while isinstance(function, ast.Attribute)\<close>, which appends to \<^verbatim>\<open>names\<close>.\<close>

fun unroll :: "expr \<Rightarrow> string list \<Rightarrow> expr \<times> string list" where
  "unroll (Attribute v attr) names = unroll v (names @ [attr])"
| "unroll function names = (function, names)"

text \<open>The loop \<^verbatim>\<open>for name in names: assigned_value = getattr(assigned_value, name)\<close>.\<close>

fun getattrs :: "pyobj \<Rightarrow> string list \<Rightarrow> exn + pyobj" where
  "getattrs assigned_value [] = Inr assigned_value"
| "getattrs assigned_value (n # names) =
     (case getattr assigned_value n of Inl e \<Rightarrow> Inl e | Inr v \<Rightarrow> getattrs v names)"

text \<open>
  The first \<^verbatim>\<open>if\<close>/\<^verbatim>\<open>elif\<close>/\<^verbatim>\<open>else\<close> of \<^verbatim>\<open>visit_Assign\<close>: the object that the called expression
  names. A name is looked up in \<^verbatim>\<open>globals()\<close>; a dotted path is unrolled to its first name,
  which is looked up, and the attributes are then read one by one; any other called expression
  raises \<^verbatim>\<open>RuntimeError\<close>. The identifier of the first name is read with \<^verbatim>\<open>.id\<close>, which raises
  when the path does not start at a name.
\<close>

definition assigned_value :: "globals \<Rightarrow> expr \<Rightarrow> exn + pyobj" where
  "assigned_value g function =
     (case function of
        Name function_name \<Rightarrow> getitem g function_name
      | Attribute v attr \<Rightarrow>
          (case unroll function [] of
             (Name module_name, names) \<Rightarrow>
               (case getitem g module_name of
                  Inl e \<Rightarrow> Inl e
                | Inr m \<Rightarrow> getattrs m (rev names))
           | (other, names) \<Rightarrow> Inl (AttributeError ''id''))
      | other \<Rightarrow> Inl (RuntimeError ''Model contains assignment of an unexpected node''))"

text \<open>
  \<^verbatim>\<open>visit_Assign\<close> of \<^verbatim>\<open>01-iteration\<close>, on the node \<^verbatim>\<open>Assign(targets, value)\<close>. In the branch of
  a \<^verbatim>\<open>Model\<close> the new called expression is built from \<^verbatim>\<open>new_node.value.value.func.id\<close>, which
  raises when the called expression is not a name.
\<close>

definition visit_Assign :: "globals \<Rightarrow> expr list \<Rightarrow> expr \<Rightarrow> exn + stmt" where
  "visit_Assign g targets v =
     (case v of
        Call function args keywords \<Rightarrow>
          (case assigned_value g function of
             Inl e \<Rightarrow> Inl e
           | Inr obj \<Rightarrow>
               if isinstance obj DistributionMeta
               then Inr (Assign targets (Yield (Some v)))
               else if isinstance obj Model
               then
                 (case function of
                    Name ident \<Rightarrow>
                      Inr (Assign targets
                        (YieldFrom (Call (Attribute (Name ident) ''model_generator'') args keywords)))
                  | other \<Rightarrow> Inl (AttributeError ''id''))
               else Inr (Assign targets v))
      | other \<Rightarrow> Inr (Assign targets v))"

text \<open>
  \<^verbatim>\<open>visit\<close> calls \<^verbatim>\<open>visit_Assign\<close> on an assignment and \<^verbatim>\<open>visit_FunctionDef\<close> on a function
  definition, which is renamed, loses its decorators and has its body visited; on any other
  statement it is \<^verbatim>\<open>generic_visit\<close> of \<^verbatim>\<open>ast.NodeTransformer\<close>, which visits the statements under
  the node in the order of its fields. No statement stands under an expression and the class
  has no method for an expression node, so expressions come back as they are. The first
  exception ends the pass. Class definitions and \<^verbatim>\<open>try\<close> statements, which are visited in
  the same way, are not among the statements of the model.
\<close>

fun visit :: "globals \<Rightarrow> stmt \<Rightarrow> exn + stmt"
  and visit_list :: "globals \<Rightarrow> stmt list \<Rightarrow> exn + stmt list" where
  "visit g (Assign targets v) = visit_Assign g targets v"
| "visit g (FunctionDef n args b decorator_list) =
     (case visit_list g b of
        Inl e \<Rightarrow> Inl e
      | Inr b' \<Rightarrow> Inr (FunctionDef ''_model_generator'' args b' []))"
| "visit g (With items b) =
     (case visit_list g b of Inl e \<Rightarrow> Inl e | Inr b' \<Rightarrow> Inr (With items b'))"
| "visit g (If test b orelse) =
     (case visit_list g b of
        Inl e \<Rightarrow> Inl e
      | Inr b' \<Rightarrow>
          (case visit_list g orelse of
             Inl e \<Rightarrow> Inl e
           | Inr orelse' \<Rightarrow> Inr (If test b' orelse')))"
| "visit g (For target iter b orelse) =
     (case visit_list g b of
        Inl e \<Rightarrow> Inl e
      | Inr b' \<Rightarrow>
          (case visit_list g orelse of
             Inl e \<Rightarrow> Inl e
           | Inr orelse' \<Rightarrow> Inr (For target iter b' orelse')))"
| "visit g (While test b orelse) =
     (case visit_list g b of
        Inl e \<Rightarrow> Inl e
      | Inr b' \<Rightarrow>
          (case visit_list g orelse of
             Inl e \<Rightarrow> Inl e
           | Inr orelse' \<Rightarrow> Inr (While test b' orelse')))"
| "visit g (AugAssign target opr v) = Inr (AugAssign target opr v)"
| "visit g (AnnAssign target annotation v) = Inr (AnnAssign target annotation v)"
| "visit g (Return v) = Inr (Return v)"
| "visit g (Expr v) = Inr (Expr v)"
| "visit g Pass = Inr Pass"
| "visit_list g [] = Inr []"
| "visit_list g (s # ss) =
     (case visit g s of
        Inl e \<Rightarrow> Inl e
      | Inr s' \<Rightarrow>
          (case visit_list g ss of Inl e \<Rightarrow> Inl e | Inr ss' \<Rightarrow> Inr (s' # ss')))"

text \<open>\<^verbatim>\<open>FunctionToGenerator().visit(tree)\<close> on the module that \<^verbatim>\<open>parse_snippet\<close> gives.\<close>

definition visit_Module :: "globals \<Rightarrow> module_ast \<Rightarrow> exn + module_ast" where
  "visit_Module g a = (case visit_list g (body a) of Inl e \<Rightarrow> Inl e | Inr b \<Rightarrow> Inr (Module b))"

text \<open>
  \<^verbatim>\<open>visit_Assign\<close> of \<^verbatim>\<open>00-prototype\<close>: every assigned value is wrapped, whatever it is.
\<close>

definition visit_Assign_prototype :: "expr list \<Rightarrow> expr \<Rightarrow> stmt" where
  "visit_Assign_prototype targets v = Assign targets (Yield (Some v))"

subsection \<open>Generators\<close>

text \<open>
  Python values as far as the driver tells them apart: \<^verbatim>\<open>None\<close> or another value. A
  distribution has a name and the method \<^verbatim>\<open>sample\<close>, which draws from a source of randomness
  \<open>'r\<close> and returns the value with the source it leaves.
\<close>

datatype 'v pyval = PyNone | PyVal 'v

record ('v, 'r) dist =
  name :: string
  sample :: "'r \<Rightarrow> 'v pyval \<times> 'r"

text \<open>
  A generator is what resuming it gives: it yields a distribution and can then be resumed by
  \<^verbatim>\<open>send\<close> with a value or by \<^verbatim>\<open>throw\<close> with an exception, or it returns, which raises
  \<^verbatim>\<open>StopIteration\<close> with the arguments \<open>()\<close> or \<open>(value,)\<close>, or it raises another exception. The
  type is a codatatype: a generator may yield for ever.
\<close>

codatatype ('v, 'r) gen =
    Yields "('v, 'r) dist" "'v pyval \<Rightarrow> ('v, 'r) gen" "exn \<Rightarrow> ('v, 'r) gen"
  | StopIteration "'v pyval option"
  | Raises exn

text \<open>
  The first argument of a \<^verbatim>\<open>StopIteration\<close>, or \<^verbatim>\<open>None\<close> when it has none: what \<^verbatim>\<open>interact\<close>
  takes with \<^verbatim>\<open>e.args[0] if e.args\<close>, and the attribute \<^verbatim>\<open>value\<close> that \<^verbatim>\<open>yield from\<close> reads.
\<close>

definition stop_value :: "'v pyval option \<Rightarrow> 'v pyval" where
  "stop_value args = (case args of None \<Rightarrow> PyNone | Some v \<Rightarrow> v)"


subsection \<open>interact\<close>

text \<open>
  The dictionary \<^verbatim>\<open>state\<close> with its two dictionaries, which keep the order of insertion.
\<close>

record ('v, 'r) state =
  dists :: "(string \<times> ('v, 'r) dist) list"
  samples :: "(string \<times> 'v pyval) list"

text \<open>
  What a caller of \<^verbatim>\<open>interact\<close> has afterwards: the exception or the returned value, the
  dictionary \<^verbatim>\<open>state\<close>, which \<^verbatim>\<open>interact\<close> changes in place, and the source of randomness.
\<close>

type_synonym ('v, 'r) outcome = "(exn + 'v pyval) \<times> ('v, 'r) state \<times> 'r"

text \<open>
  One pass through the body of \<^verbatim>\<open>while True\<close>, entered with what \<^verbatim>\<open>control_flow.send(return_value)\<close>
  has given; it ends the loop (\<open>Inl\<close>) or goes on with what the next \<^verbatim>\<open>send\<close> gives (\<open>Inr\<close>).

  The name \<^verbatim>\<open>preds_dist\<close> in the message of the duplicate is no parameter and no local variable
  of \<^verbatim>\<open>interact\<close>, so Python reads a global; neither notebook binds one. \<open>preds_dist\<close> is that
  global: \<open>None\<close> when it is unbound, and then reading it raises \<^verbatim>\<open>NameError\<close> before
  \<^verbatim>\<open>control_flow.throw\<close> is called. When it is bound, the exception is thrown into the
  generator: if the generator lets it out, it leaves \<^verbatim>\<open>interact\<close>; if the generator returns,
  \<^verbatim>\<open>except StopIteration\<close> ends the loop; if the generator yields again, \<^verbatim>\<open>throw\<close> returns and
  the body goes on with the same \<^verbatim>\<open>dist\<close>.
\<close>

definition loop_body ::
  "('v, 'r) dist option \<Rightarrow> ('v, 'r) gen \<Rightarrow> ('v, 'r) state \<Rightarrow> 'r \<Rightarrow>
     ('v, 'r) outcome + (('v, 'r) gen \<times> ('v, 'r) state \<times> 'r)" where
  "loop_body preds_dist sent st rng =
     (case sent of
        StopIteration args \<Rightarrow> Inl (Inr (stop_value args), st, rng)
      | Raises e \<Rightarrow> Inl (Inl e, st, rng)
      | Yields d send throw \<Rightarrow>
          (case
             (if name d \<in> set (map fst (dists st))
              then
                (case preds_dist of
                   None \<Rightarrow> Inl (Inl (NameError ''preds_dist''))
                 | Some pd \<Rightarrow>
                     (case throw (DuplicateNames (name pd) (set (map fst (dists st)))) of
                        Yields d' send' throw' \<Rightarrow> Inr send'
                      | StopIteration args \<Rightarrow> Inl (Inr (stop_value args))
                      | Raises e \<Rightarrow> Inl (Inl e)))
              else Inr send)
           of
             Inl out \<Rightarrow> Inl (out, st, rng)
           | Inr control_flow \<Rightarrow>
               (case map_of (samples st) (name d) of
                  Some return_value \<Rightarrow>
                    Inr (control_flow return_value,
                         st\<lparr>dists := AList.update (name d) d (dists st)\<rparr>, rng)
                | None \<Rightarrow>
                    (case sample d rng of
                       (return_value, rng') \<Rightarrow>
                         Inr (control_flow return_value,
                              st\<lparr>samples := AList.update (name d) return_value (samples st),
                                 dists := AList.update (name d) d (dists st)\<rparr>, rng')))))"

text \<open>
  The loop \<^verbatim>\<open>while True\<close>. It need not end, so the result is an option: \<open>None\<close> when the loop
  runs for ever.
\<close>

partial_function (option) interact_loop ::
  "('v, 'r) dist option \<Rightarrow> ('v, 'r) gen \<Rightarrow> ('v, 'r) state \<Rightarrow> 'r \<Rightarrow> ('v, 'r) outcome option"
  where
  "interact_loop preds_dist sent st rng =
     (case loop_body preds_dist sent st rng of
        Inl out \<Rightarrow> Some out
      | Inr (sent', st', rng') \<Rightarrow> interact_loop preds_dist sent' st' rng')"

text \<open>
  \<^verbatim>\<open>interact(gen, state)\<close>: \<open>gen ()\<close> is the generator that \<^verbatim>\<open>gen()\<close> creates, as its first
  \<^verbatim>\<open>send(None)\<close> finds it.
\<close>

definition interact ::
  "('v, 'r) dist option \<Rightarrow> (unit \<Rightarrow> ('v, 'r) gen) \<Rightarrow> ('v, 'r) state \<Rightarrow> 'r \<Rightarrow>
     ('v, 'r) outcome option" where
  "interact preds_dist gen st rng = interact_loop preds_dist (gen ()) st rng"

subsection \<open>The generator function that the decorator builds\<close>




subsection \<open>Notions that the properties are stated with\<close>

text \<open>
  One pass of the loop leads from one configuration (what \<^verbatim>\<open>send\<close> gave, the state, the source
  of randomness) to the next.
\<close>

definition iteration ::
  "('v, 'r) dist option \<Rightarrow> ('v, 'r) gen \<times> ('v, 'r) state \<times> 'r \<Rightarrow>
     ('v, 'r) gen \<times> ('v, 'r) state \<times> 'r \<Rightarrow> bool" where
  "iteration preds_dist x y = (loop_body preds_dist (fst x) (fst (snd x)) (snd (snd x)) = Inr y)"


text \<open>The yield markers in an expression.\<close>

fun markers :: "expr \<Rightarrow> nat" where
  "markers (Name n) = 0"
| "markers (Attribute v attr) = markers v"
| "markers (Call function args keywords) =
     markers function + sum_list (map markers args) + sum_list (map (\<lambda>kw. markers (snd kw)) keywords)"
| "markers (Yield None) = 1"
| "markers (Yield (Some v)) = Suc (markers v)"
| "markers (YieldFrom v) = Suc (markers v)"
| "markers (Num n) = 0"
| "markers (Str s) = 0"
| "markers (BinOp l opr r) = markers l + markers r"
| "markers (Subscript v i) = markers v + markers i"

fun is_marker :: "expr \<Rightarrow> bool" where
  "is_marker (Yield v) = True"
| "is_marker (YieldFrom v) = True"
| "is_marker v = False"

text \<open>The assignments of a statement, those of the statements under it included, in order.\<close>

fun assigns :: "stmt \<Rightarrow> stmt list"
  and assigns_list :: "stmt list \<Rightarrow> stmt list" where
  "assigns (Assign targets v) = [Assign targets v]"
| "assigns (FunctionDef n args b decorator_list) = assigns_list b"
| "assigns (With items b) = assigns_list b"
| "assigns (If test b orelse) = assigns_list b @ assigns_list orelse"
| "assigns (For target iter b orelse) = assigns_list b @ assigns_list orelse"
| "assigns (While test b orelse) = assigns_list b @ assigns_list orelse"
| "assigns (AugAssign target opr v) = []"
| "assigns (AnnAssign target annotation v) = []"
| "assigns (Return v) = []"
| "assigns (Expr v) = []"
| "assigns Pass = []"
| "assigns_list [] = []"
| "assigns_list (s # ss) = assigns s @ assigns_list ss"

fun assigned :: "stmt \<Rightarrow> expr" where
  "assigned (Assign targets v) = v"
| "assigned s = Name []"

text \<open>
  A statement with every function definition in it under the name \<^verbatim>\<open>_model_generator\<close> and
  without decorators, and nothing else changed.
\<close>

fun renamed :: "stmt \<Rightarrow> stmt"
  and renamed_list :: "stmt list \<Rightarrow> stmt list" where
  "renamed (FunctionDef n args b decorator_list) =
     FunctionDef ''_model_generator'' args (renamed_list b) []"
| "renamed (With items b) = With items (renamed_list b)"
| "renamed (If test b orelse) = If test (renamed_list b) (renamed_list orelse)"
| "renamed (For target iter b orelse) = For target iter (renamed_list b) (renamed_list orelse)"
| "renamed (While test b orelse) = While test (renamed_list b) (renamed_list orelse)"
| "renamed (Assign targets v) = Assign targets v"
| "renamed (AugAssign target opr v) = AugAssign target opr v"
| "renamed (AnnAssign target annotation v) = AnnAssign target annotation v"
| "renamed (Return v) = Return v"
| "renamed (Expr v) = Expr v"
| "renamed Pass = Pass"
| "renamed_list [] = []"
| "renamed_list (s # ss) = renamed s # renamed_list ss"






subsection \<open>Inputs that the properties are tried on\<close>

text \<open>
  A library that finds the source of the file \<^verbatim>\<open>models.py\<close> only, and three code objects: a
  function defined inside another function that uses none of its variables, a function at
  the top of \<^verbatim>\<open>models.py\<close> compiled under \<^verbatim>\<open>from __future__ import division\<close>, and a function
  of a file that is gone.
\<close>

definition py0 :: python where
  "py0 =
     \<lparr>getsourcelines =
        (\<lambda>c. if co_filename c = ''models.py''
             then Inr ([''def inner(x):'' @ newline, ''    return x'' @ newline], 3)
             else Inl IOError),
      re_match = (\<lambda>n. None),
      future =
        [(''CO_NESTED'', 16), (''CO_FUTURE_DIVISION'', 8192),
         (''CO_FUTURE_GENERATOR_STOP'', 524288)],
      compile_source = (\<lambda>src fname md fl. Inl SyntaxError),
      compile_ast = (\<lambda>a fname md fl. Inl SyntaxError)\<rparr>"

definition c_nested :: codeobj where
  "c_nested =
     \<lparr>co_flags = 83, co_freevars = [], co_name = ''inner'', co_filename = ''models.py'',
      co_names = []\<rparr>"

definition c_plain :: codeobj where
  "c_plain =
     \<lparr>co_flags = 8259, co_freevars = [], co_name = ''inner'', co_filename = ''models.py'',
      co_names = [''tfd'']\<rparr>"

definition c_lost :: codeobj where
  "c_lost =
     \<lparr>co_flags = 67, co_freevars = [], co_name = ''inner'', co_filename = ''gone.py'',
      co_names = []\<rparr>"

text \<open>
  A builtin \<^verbatim>\<open>compile\<close> that knows two texts, an assignment and a function definition, as
  they are and indented by four spaces; any other text is a syntax error.
\<close>

definition py1 :: python where
  "py1 =
     \<lparr>getsourcelines = (\<lambda>c. Inl IOError),
      re_match = (\<lambda>n. None),
      future = [],
      compile_source =
        (\<lambda>src fname md fl.
           if src = newline @ ''x = 1'' @ newline
           then Inr (Module [Assign [Name ''x''] (Num 1)])
           else if src = newline @ ''def f(): pass'' @ newline
           then Inr (Module [FunctionDef ''f'' [] [Pass] []])
           else if src = newline @ ''    x = 1'' @ newline
             \<or> src = newline @ ''    def f(): pass'' @ newline
           then Inl IndentationError
           else if src = ''with 0:'' @ newline @ ''    x = 1'' @ newline
           then Inr (Module [With [(Num 0, None)] [Assign [Name ''x''] (Num 1)]])
           else if src = ''with 0:'' @ newline @ ''    def f(): pass'' @ newline
           then Inr (Module [With [(Num 0, None)] [FunctionDef ''f'' [] [Pass] []]])
           else Inl SyntaxError),
      compile_ast =
        (\<lambda>a fname md fl.
           Inr \<lparr>co_flags = 64, co_freevars = [], co_name = ''<module>'', co_filename = fname,
                co_names = [''f'']\<rparr>)\<rparr>"

text \<open>
  The globals of the notebook \<^verbatim>\<open>01-iteration\<close> that its models call: the modules \<^verbatim>\<open>tfd\<close> and
  \<^verbatim>\<open>tf\<close> and the model \<^verbatim>\<open>Horseshoe\<close>. \<open>zoo_globals\<close> has one more object, \<^verbatim>\<open>zoo\<close>, with the
  same model as an attribute.
\<close>

definition notebook_globals :: globals where
  "notebook_globals =
     map_of
       [(''tfd'', PyObj OtherClass
           [(''Normal'', PyObj DistributionMeta []),
            (''HalfCauchy'', PyObj DistributionMeta []),
            (''gaussian_process'', PyObj OtherClass
               [(''GaussianProcess'', PyObj DistributionMeta [])])]),
        (''tf'', PyObj OtherClass [(''zeros'', PyObj OtherClass [])]),
        (''Horseshoe'', PyObj Model [(''model_generator'', PyObj OtherClass [])])]"

definition zoo_globals :: globals where
  "zoo_globals =
     notebook_globals
       (''zoo'' \<mapsto> PyObj OtherClass
          [(''Horseshoe'', PyObj Model [(''model_generator'', PyObj OtherClass [])])])"

text \<open>
  A model written with \<^verbatim>\<open>yield\<close> under the decorator, as \<^verbatim>\<open>linear_regression_with_yields\<close> of
  the notebook is; a model with an assignment of each kind; and what the visitor makes of it.
\<close>

definition with_yields :: stmt where
  "with_yields =
     FunctionDef ''linear_regression_with_yields'' [''x'']
       [Assign [Name ''scale'']
          (Yield (Some (Call (Attribute (Name ''tfd'') ''HalfCauchy'') [Num 0, Num 1]
             [(Some ''name'', Str ''scale'')]))),
        Return (Some (Name ''scale''))]
       [Name ''Model'']"

definition regularized :: stmt where
  "regularized =
     FunctionDef ''regularized_linear_regression'' [''x'']
       [Assign [Name ''scale'']
          (Call (Attribute (Name ''tfd'') ''HalfCauchy'') [Num 0, Num 1]
             [(Some ''name'', Str ''scale'')]),
        Assign [Name ''coefs'']
          (Call (Name ''Horseshoe'') [Call (Attribute (Name ''tf'') ''zeros'') [Name ''n''] []]
             [(Some ''name'', Str ''coefs'')]),
        Assign [Name ''n''] (Num 10),
        Assign [Name ''z''] (Call (Attribute (Name ''tf'') ''zeros'') [Name ''n''] []),
        Return (Some (Name ''coefs''))]
       [Name ''Model'']"

definition regularized_generator :: stmt where
  "regularized_generator =
     FunctionDef ''_model_generator'' [''x'']
       [Assign [Name ''scale'']
          (Yield (Some (Call (Attribute (Name ''tfd'') ''HalfCauchy'') [Num 0, Num 1]
             [(Some ''name'', Str ''scale'')]))),
        Assign [Name ''coefs'']
          (YieldFrom (Call (Attribute (Name ''Horseshoe'') ''model_generator'')
             [Call (Attribute (Name ''tf'') ''zeros'') [Name ''n''] []]
             [(Some ''name'', Str ''coefs'')])),
        Assign [Name ''n''] (Num 10),
        Assign [Name ''z''] (Call (Attribute (Name ''tf'') ''zeros'') [Name ''n''] []),
        Return (Some (Name ''coefs''))]
       []"

text \<open>
  Distributions whose values are integers and whose source of randomness is a counter: a draw
  returns the counter and increments it. Generators: one that yields the name \<^verbatim>\<open>a\<close> twice; the
  nested model with two suspension points; a model that ends without a \<^verbatim>\<open>return\<close>.
\<close>

definition draws :: "string \<Rightarrow> (int, nat) dist" where
  "draws n = \<lparr>name = n, sample = (\<lambda>r. (PyVal (int r), Suc r))\<rparr>"

definition fresh :: "(int, nat) state" where
  "fresh = \<lparr>dists = [], samples = []\<rparr>"

definition observed :: "(int, nat) state" where
  "observed = \<lparr>dists = [], samples = [(''coefs_noise'', PyVal 7)]\<rparr>"

definition twice :: "(int, nat) gen" where
  "twice =
     Yields (draws ''a'')
       (\<lambda>x. Yields (draws ''a'')
          (\<lambda>y. Yields (draws ''b'') (\<lambda>z. StopIteration (Some z)) Raises) Raises)
       Raises"

definition horseshoe :: "(int, nat) gen" where
  "horseshoe =
     Yields (draws ''coefs_scale'')
       (\<lambda>scale. Yields (draws ''coefs_noise'') (\<lambda>noise. StopIteration (Some noise)) Raises)
       Raises"

definition no_return :: "(int, nat) gen" where
  "no_return = Yields (draws ''scale'') (\<lambda>scale. StopIteration None) Raises"















section \<open>Properties\<close>

subsection \<open>uncompile\<close>

text \<open>
  C9, as the claim states it, fails: a function defined inside another function that captures
  none of its variables is no closure, has a name and has its source in a file, and
  \<^verbatim>\<open>uncompile\<close> raises \<^verbatim>\<open>NotImplementedError\<close> for it instead of returning its source.
\<close>

theorem uncompile_nested_counterexample:
  "co_freevars c_nested = [] \<and> co_name c_nested \<noteq> ''<lambda>''
   \<and> getsourcelines py0 c_nested =
       Inr ([''def inner(x):'' @ newline, ''    return x'' @ newline], 3)
   \<and> uncompile py0 c_nested = Inl (NotImplementedError ''Nested functions not supported'')"
  by (simp add: uncompile_def c_nested_def py0_def CO_NESTED_def)

text \<open>
  C9, amended: \<^verbatim>\<open>uncompile\<close> raises \<^verbatim>\<open>NotImplementedError\<close> when the code object has the flag
  \<^verbatim>\<open>CO_NESTED\<close> (the function is defined inside another function) or has free variables (it
  is a closure), when it is a lambda, and when its file name is \<^verbatim>\<open><string>\<close>. Otherwise it
  raises \<^verbatim>\<open>RuntimeError\<close> with the message that the source is not available when
  \<^verbatim>\<open>inspect.getsourcelines\<close> raises \<^verbatim>\<open>IOError\<close>, and it returns the source text, the file name,
  the mode, the future flags, the first line number and the private prefix when the lines are
  found. It is a function of the code object and of what the library answers: it changes
  nothing.
\<close>

theorem uncompile_cases:
  "(0 < (co_flags c AND CO_NESTED) \<or> co_freevars c \<noteq> [] \<or> co_name c = ''<lambda>''
      \<or> co_filename c = ''<string>''
     \<longrightarrow> (\<exists>msg. uncompile py c = Inl (NotImplementedError msg)))
   \<and> (co_flags c AND CO_NESTED = 0 \<and> co_freevars c = [] \<and> co_name c \<noteq> ''<lambda>''
        \<and> co_filename c \<noteq> ''<string>''
     \<longrightarrow> (getsourcelines py c = Inl IOError
            \<longrightarrow> uncompile py c = Inl (RuntimeError ''Source code not available''))
         \<and> (\<forall>lines n. getsourcelines py c = Inr (lines, n)
            \<longrightarrow> uncompile py c =
                Inr \<lparr>source = Text (concat lines), filename = co_filename c, mode = ''exec'',
                     flags = co_flags c AND PyCF_MASK py, firstlineno = n,
                     privateprefix = find_privateprefix (re_match py) (co_names c)\<rparr>))"
  by (auto simp: uncompile_def)

theorem uncompile_cases_witness:
  "(\<exists>msg. uncompile py0 c_nested = Inl (NotImplementedError msg))
   \<and> uncompile py0 c_lost = Inl (RuntimeError ''Source code not available'')
   \<and> uncompile py0 c_plain =
       Inr \<lparr>source = Text (''def inner(x):'' @ newline @ ''    return x'' @ newline),
            filename = ''models.py'', mode = ''exec'', flags = 8192, firstlineno = 3,
            privateprefix = None\<rparr>"
  using uncompile_cases [of c_nested py0] uncompile_cases [of c_lost py0]
    uncompile_cases [of c_plain py0]
  by (simp add: c_nested_def c_lost_def c_plain_def py0_def CO_NESTED_def PyCF_MASK_def)

subsection \<open>parse_snippet and recompile\<close>

text \<open>
  C8, as the claim states it, fails for \<^verbatim>\<open>parse_snippet\<close>: on the text \<^verbatim>\<open>x = 1\<close> it returns the
  tree, whose first statement is an assignment and no function definition; on the same text
  indented, which it parses behind \<^verbatim>\<open>with 0:\<close>, it returns that tree as well.
\<close>

theorem parse_snippet_unchecked_counterexample:
  "parse_snippet py1 (''x = 1'' @ newline) ''cell.py'' ''exec'' 0 1
     = Inr (Module [Assign [Name ''x''] (Num 1)])
   \<and> \<not> is_FunctionDef (Assign [Name ''x''] (Num 1))
   \<and> parse_snippet py1 (''    x = 1'' @ newline) ''cell.py'' ''exec'' 0 1
     = Inr (Module [Assign [Name ''x''] (Num 1)])"
  by (simp add: parse_snippet_def py1_def newline_def)

text \<open>
  What \<^verbatim>\<open>parse_snippet\<close> returns, on each of its two paths, and what it raises.
\<close>

lemma parse_snippet_first:
  "compile_source py (newline @ s) fname md (fl OR PyCF_ONLY_AST) = Inr a \<Longrightarrow>
   parse_snippet py s fname md fl lineno = Inr a"
  by (simp add: parse_snippet_def)

lemma parse_snippet_indented:
  "compile_source py (newline @ s) fname md (fl OR PyCF_ONLY_AST) = Inl IndentationError \<Longrightarrow>
   compile_source py (''with 0:'' @ newline @ s) fname md (fl OR PyCF_ONLY_AST) = Inr a' \<Longrightarrow>
   body a' = node # rest \<Longrightarrow> stmt_body node = Inr b \<Longrightarrow>
   parse_snippet py s fname md fl lineno = Inr (Module b)"
  by (simp add: parse_snippet_def)

lemma parse_snippet_Inr:
  "parse_snippet py s fname md fl lineno = Inr a \<Longrightarrow>
   compile_source py (newline @ s) fname md (fl OR PyCF_ONLY_AST) = Inr a
   \<or> (compile_source py (newline @ s) fname md (fl OR PyCF_ONLY_AST) = Inl IndentationError
      \<and> (\<exists>a' node rest b.
           compile_source py (''with 0:'' @ newline @ s) fname md (fl OR PyCF_ONLY_AST) = Inr a'
         \<and> body a' = node # rest \<and> stmt_body node = Inr b \<and> a = Module b))"
  by (auto simp: parse_snippet_def split: sum.splits if_splits list.splits)

lemma parse_snippet_Inl:
  "parse_snippet py s fname md fl lineno = Inl e \<Longrightarrow>
   compile_source py (newline @ s) fname md (fl OR PyCF_ONLY_AST) = Inl e
   \<or> compile_source py (''with 0:'' @ newline @ s) fname md (fl OR PyCF_ONLY_AST) = Inl e
   \<or> e = IndexError \<or> e = AttributeError ''body''"
proof -
  have b: "stmt_body node = Inl x \<Longrightarrow> x = AttributeError ''body''" for node x
    by (cases node) simp_all
  assume "parse_snippet py s fname md fl lineno = Inl e"
  then show ?thesis
    by (auto simp: parse_snippet_def split: sum.splits if_splits list.splits dest: b)
qed

text \<open>
  C8, amended: the check is made by \<^verbatim>\<open>recompile\<close> alone. On a tree whose first statement is no
  function definition \<^verbatim>\<open>recompile\<close> raises \<^verbatim>\<open>RuntimeError\<close> with the message that it expects a
  function node; on a tree whose first statement is a function definition it passes the check
  and returns what the builtin \<^verbatim>\<open>compile\<close> returns; given a text, it does the same with the
  tree that \<^verbatim>\<open>parse_snippet\<close> returns for the text. \<^verbatim>\<open>parse_snippet\<close> makes no such check on
  either of its paths. When the text parses as it is, it returns the tree that parsing gives,
  whatever this tree is. When parsing the text raises \<^verbatim>\<open>IndentationError\<close> and the text parses
  behind \<^verbatim>\<open>with 0:\<close>, it returns the statements under the first statement of that tree,
  whatever they are. It returns a tree in these two cases only, and what it raises is what
  the builtin \<^verbatim>\<open>compile\<close> raises, or \<^verbatim>\<open>IndexError\<close> or \<^verbatim>\<open>AttributeError\<close> from peeling a tree that
  has no first statement or no body there: it has no \<^verbatim>\<open>RuntimeError\<close> of its own.
\<close>

theorem recompile_checks:
  "(body a = node # rest \<and> \<not> is_FunctionDef node
     \<longrightarrow> recompile py (Tree a) fname md fl lineno
         = Inl (RuntimeError ''Expecting function AST node''))
   \<and> (body a = node # rest \<and> is_FunctionDef node
     \<longrightarrow> recompile py (Tree a) fname md fl lineno = compile_ast py a fname md fl)
   \<and> (parse_snippet py s fname md fl lineno = Inr a
     \<longrightarrow> recompile py (Text s) fname md fl lineno = recompile py (Tree a) fname md fl lineno)
   \<and> (compile_source py (newline @ s) fname md (fl OR PyCF_ONLY_AST) = Inr a
     \<longrightarrow> parse_snippet py s fname md fl lineno = Inr a)
   \<and> (compile_source py (newline @ s) fname md (fl OR PyCF_ONLY_AST) = Inl IndentationError
      \<and> compile_source py (''with 0:'' @ newline @ s) fname md (fl OR PyCF_ONLY_AST) = Inr a'
      \<and> body a' = node' # rest' \<and> stmt_body node' = Inr b
     \<longrightarrow> parse_snippet py s fname md fl lineno = Inr (Module b))
   \<and> (parse_snippet py s fname md fl lineno = Inr a
     \<longrightarrow> compile_source py (newline @ s) fname md (fl OR PyCF_ONLY_AST) = Inr a
         \<or> (compile_source py (newline @ s) fname md (fl OR PyCF_ONLY_AST)
               = Inl IndentationError
            \<and> (\<exists>t n r c.
                 compile_source py (''with 0:'' @ newline @ s) fname md (fl OR PyCF_ONLY_AST)
                   = Inr t
               \<and> body t = n # r \<and> stmt_body n = Inr c \<and> a = Module c)))
   \<and> (parse_snippet py s fname md fl lineno = Inl e
     \<longrightarrow> compile_source py (newline @ s) fname md (fl OR PyCF_ONLY_AST) = Inl e
         \<or> compile_source py (''with 0:'' @ newline @ s) fname md (fl OR PyCF_ONLY_AST) = Inl e
         \<or> e = IndexError \<or> e = AttributeError ''body'')"
proof (intro conjI impI)
  assume "body a = node # rest \<and> \<not> is_FunctionDef node"
  then show "recompile py (Tree a) fname md fl lineno
      = Inl (RuntimeError ''Expecting function AST node'')"
    by (simp add: recompile_def)
next
  assume "body a = node # rest \<and> is_FunctionDef node"
  then show "recompile py (Tree a) fname md fl lineno = compile_ast py a fname md fl"
    by (simp add: recompile_def)
next
  assume "parse_snippet py s fname md fl lineno = Inr a"
  then show "recompile py (Text s) fname md fl lineno = recompile py (Tree a) fname md fl lineno"
    by (simp add: recompile_def)
next
  assume "compile_source py (newline @ s) fname md (fl OR PyCF_ONLY_AST) = Inr a"
  then show "parse_snippet py s fname md fl lineno = Inr a"
    by (rule parse_snippet_first)
next
  assume "compile_source py (newline @ s) fname md (fl OR PyCF_ONLY_AST) = Inl IndentationError
      \<and> compile_source py (''with 0:'' @ newline @ s) fname md (fl OR PyCF_ONLY_AST) = Inr a'
      \<and> body a' = node' # rest' \<and> stmt_body node' = Inr b"
  then show "parse_snippet py s fname md fl lineno = Inr (Module b)"
    by (simp add: parse_snippet_indented)
next
  assume "parse_snippet py s fname md fl lineno = Inr a"
  from parse_snippet_Inr [OF this]
  show "compile_source py (newline @ s) fname md (fl OR PyCF_ONLY_AST) = Inr a
         \<or> (compile_source py (newline @ s) fname md (fl OR PyCF_ONLY_AST)
               = Inl IndentationError
            \<and> (\<exists>t n r c.
                 compile_source py (''with 0:'' @ newline @ s) fname md (fl OR PyCF_ONLY_AST)
                   = Inr t
               \<and> body t = n # r \<and> stmt_body n = Inr c \<and> a = Module c))" .
next
  assume "parse_snippet py s fname md fl lineno = Inl e"
  from parse_snippet_Inl [OF this]
  show "compile_source py (newline @ s) fname md (fl OR PyCF_ONLY_AST) = Inl e
         \<or> compile_source py (''with 0:'' @ newline @ s) fname md (fl OR PyCF_ONLY_AST) = Inl e
         \<or> e = IndexError \<or> e = AttributeError ''body''" .
qed

text \<open>
  The builtin \<^verbatim>\<open>compile\<close> of \<open>py1\<close>: an assignment and a function definition, as they are and
  indented. The indented assignment comes back from \<^verbatim>\<open>parse_snippet\<close> as a tree and is refused
  by \<^verbatim>\<open>recompile\<close>; the indented function definition passes both.
\<close>

theorem recompile_checks_witness:
  "recompile py1 (Tree (Module [Assign [Name ''x''] (Num 1)])) ''cell.py'' ''exec'' 0 1
     = Inl (RuntimeError ''Expecting function AST node'')
   \<and> recompile py1 (Tree (Module [FunctionDef ''f'' [] [Pass] []])) ''cell.py'' ''exec'' 0 1
     = Inr \<lparr>co_flags = 64, co_freevars = [], co_name = ''<module>'', co_filename = ''cell.py'',
            co_names = [''f'']\<rparr>
   \<and> parse_snippet py1 (''x = 1'' @ newline) ''cell.py'' ''exec'' 0 1
     = Inr (Module [Assign [Name ''x''] (Num 1)])
   \<and> recompile py1 (Text (''x = 1'' @ newline)) ''cell.py'' ''exec'' 0 1
     = Inl (RuntimeError ''Expecting function AST node'')
   \<and> parse_snippet py1 (''    x = 1'' @ newline) ''cell.py'' ''exec'' 0 1
     = Inr (Module [Assign [Name ''x''] (Num 1)])
   \<and> recompile py1 (Text (''    x = 1'' @ newline)) ''cell.py'' ''exec'' 0 1
     = Inl (RuntimeError ''Expecting function AST node'')
   \<and> parse_snippet py1 (''    def f(): pass'' @ newline) ''cell.py'' ''exec'' 0 1
     = Inr (Module [FunctionDef ''f'' [] [Pass] []])
   \<and> recompile py1 (Text (''    def f(): pass'' @ newline)) ''cell.py'' ''exec'' 0 1
     = Inr \<lparr>co_flags = 64, co_freevars = [], co_name = ''<module>'', co_filename = ''cell.py'',
            co_names = [''f'']\<rparr>
   \<and> parse_snippet py1 (''x = '' @ newline) ''cell.py'' ''exec'' 0 1 = Inl SyntaxError"
proof -
  let ?x = "Assign [Name ''x''] (Num 1)"
  let ?f = "FunctionDef ''f'' [] [Pass] []"
  let ?c = "\<lparr>co_flags = 64, co_freevars = [], co_name = ''<module>'', co_filename = ''cell.py'',
            co_names = [''f'']\<rparr>"
  have p: "compile_source py1 (newline @ ''x = 1'' @ newline) ''cell.py'' ''exec''
      (0 OR PyCF_ONLY_AST) = Inr (Module [?x])"
    by (simp add: py1_def)
  have i1: "compile_source py1 (newline @ ''    x = 1'' @ newline) ''cell.py'' ''exec''
      (0 OR PyCF_ONLY_AST) = Inl IndentationError"
    by (simp add: py1_def newline_def)
  have i2: "compile_source py1 (''with 0:'' @ newline @ ''    x = 1'' @ newline) ''cell.py''
      ''exec'' (0 OR PyCF_ONLY_AST) = Inr (Module [With [(Num 0, None)] [?x]])"
    by (simp add: py1_def newline_def)
  have j1: "compile_source py1 (newline @ ''    def f(): pass'' @ newline) ''cell.py'' ''exec''
      (0 OR PyCF_ONLY_AST) = Inl IndentationError"
    by (simp add: py1_def newline_def)
  have j2: "compile_source py1 (''with 0:'' @ newline @ ''    def f(): pass'' @ newline)
      ''cell.py'' ''exec'' (0 OR PyCF_ONLY_AST) = Inr (Module [With [(Num 0, None)] [?f]])"
    by (simp add: py1_def newline_def)
  have e1: "compile_source py1 (newline @ ''x = '' @ newline) ''cell.py'' ''exec''
      (0 OR PyCF_ONLY_AST) = Inl SyntaxError"
    by (simp add: py1_def newline_def)
  have e2: "compile_source py1 (''with 0:'' @ newline @ ''x = '' @ newline) ''cell.py'' ''exec''
      (0 OR PyCF_ONLY_AST) = Inl SyntaxError"
    by (simp add: py1_def newline_def)
  have c: "compile_ast py1 (Module [?f]) ''cell.py'' ''exec'' 0 = Inr ?c"
    by (simp add: py1_def)
  note t1 = recompile_checks [where py = py1 and a = "Module [?x]"
      and node = ?x and rest = "[]" and s = "''x = 1'' @ newline"
      and fname = "''cell.py''" and md = "''exec''" and fl = 0 and lineno = 1]
  note t2 = recompile_checks [where py = py1 and a = "Module [?f]"
      and node = ?f and rest = "[]"
      and fname = "''cell.py''" and md = "''exec''" and fl = 0 and lineno = 1]
  note t3 = recompile_checks [where py = py1 and a = "Module [?x]"
      and node = ?x and rest = "[]" and s = "''    x = 1'' @ newline"
      and a' = "Module [With [(Num 0, None)] [?x]]" and node' = "With [(Num 0, None)] [?x]"
      and rest' = "[]" and b = "[?x]"
      and fname = "''cell.py''" and md = "''exec''" and fl = 0 and lineno = 1]
  note t4 = recompile_checks [where py = py1 and a = "Module [?f]"
      and node = ?f and rest = "[]" and s = "''    def f(): pass'' @ newline"
      and a' = "Module [With [(Num 0, None)] [?f]]" and node' = "With [(Num 0, None)] [?f]"
      and rest' = "[]" and b = "[?f]"
      and fname = "''cell.py''" and md = "''exec''" and fl = 0 and lineno = 1]
  note t5 = recompile_checks [where py = py1 and s = "''x = '' @ newline"
      and fname = "''cell.py''" and md = "''exec''" and fl = 0 and lineno = 1]
  from t1 p have 1: "parse_snippet py1 (''x = 1'' @ newline) ''cell.py'' ''exec'' 0 1
     = Inr (Module [?x])"
    by simp
  from t1 have 2: "recompile py1 (Tree (Module [?x])) ''cell.py'' ''exec'' 0 1
     = Inl (RuntimeError ''Expecting function AST node'')"
    by simp
  from t1 1 2 have 3: "recompile py1 (Text (''x = 1'' @ newline)) ''cell.py'' ''exec'' 0 1
     = Inl (RuntimeError ''Expecting function AST node'')"
    by simp
  from t2 c have 4: "recompile py1 (Tree (Module [?f])) ''cell.py'' ''exec'' 0 1 = Inr ?c"
    by simp
  from t3 i1 i2 have 5: "parse_snippet py1 (''    x = 1'' @ newline) ''cell.py'' ''exec'' 0 1
     = Inr (Module [?x])"
    by simp
  from t3 5 2 have 6: "recompile py1 (Text (''    x = 1'' @ newline)) ''cell.py'' ''exec'' 0 1
     = Inl (RuntimeError ''Expecting function AST node'')"
    by simp
  from t4 j1 j2
  have 7: "parse_snippet py1 (''    def f(): pass'' @ newline) ''cell.py'' ''exec'' 0 1
     = Inr (Module [?f])"
    by simp
  from t4 7 4
  have 8: "recompile py1 (Text (''    def f(): pass'' @ newline)) ''cell.py'' ''exec'' 0 1
     = Inr ?c"
    by simp
  have "\<exists>e. parse_snippet py1 (''x = '' @ newline) ''cell.py'' ''exec'' 0 1 = Inl e"
    by (simp add: parse_snippet_def py1_def newline_def)
  then obtain e where 9: "parse_snippet py1 (''x = '' @ newline) ''cell.py'' ''exec'' 0 1 = Inl e" ..
  with t5 [where e = e] e1 e2
  have "e = SyntaxError \<or> e = IndexError \<or> e = AttributeError ''body''"
    by auto
  moreover from 9 have "e \<noteq> IndexError" "e \<noteq> AttributeError ''body''"
    by (auto simp: parse_snippet_def py1_def newline_def)
  ultimately have 10: "parse_snippet py1 (''x = '' @ newline) ''cell.py'' ''exec'' 0 1
      = Inl SyntaxError"
    using 9 by auto
  from 1 2 3 4 5 6 7 8 10 show ?thesis by simp
qed

subsection \<open>FunctionToGenerator\<close>

text \<open>What \<^verbatim>\<open>visit_Assign\<close> returns is an assignment to the same targets.\<close>

lemma visit_Assign_shape:
  "visit_Assign g targets v = Inr s' \<Longrightarrow> \<exists>v'. s' = Assign targets v'"
  by (auto simp: visit_Assign_def split: expr.splits sum.splits if_splits)

lemma visit_not_Call:
  "\<not> is_Call v \<Longrightarrow> visit_Assign g targets v = Inr (Assign targets v)"
  by (cases v) (simp_all add: visit_Assign_def)

lemma assigns_are_Assign:
  "a \<in> set (assigns s) \<Longrightarrow> \<exists>targets v. a = Assign targets v"
  "a \<in> set (assigns_list ss) \<Longrightarrow> \<exists>targets v. a = Assign targets v"
  by (induction s and ss rule: assigns_assigns_list.induct) auto

text \<open>
  The pass visits every assignment once, where it stands: the assignments of the result are
  those of the tree, each as \<^verbatim>\<open>visit_Assign\<close> returns it.
\<close>

lemma visit_assigns:
  "visit g s = Inr s' \<Longrightarrow> list_all2 (\<lambda>a a'. visit g a = Inr a') (assigns s) (assigns s')"
  "visit_list g ss = Inr ss' \<Longrightarrow>
     list_all2 (\<lambda>a a'. visit g a = Inr a') (assigns_list ss) (assigns_list ss')"
proof (induction g s and g ss arbitrary: s' and ss' rule: visit_visit_list.induct)
  case (1 g targets v)
  then show ?case
    using visit_Assign_shape [of g targets v s'] by auto
qed (auto split: sum.splits intro!: list_all2_appendI)

text \<open>
  A call of an identifier that resolves to an object that is neither a distribution class nor
  a \<^verbatim>\<open>Model\<close> is returned unchanged: the last branch of \<^verbatim>\<open>visit_Assign\<close>, for "some other
  function, like \<^verbatim>\<open>tf.zeros()\<close>". An exception of the lookup leaves \<^verbatim>\<open>visit_Assign\<close> as it is.
\<close>

lemma visit_Assign_other:
  "(assigned_value g callee = Inr obj \<and> \<not> isinstance obj DistributionMeta
      \<and> \<not> isinstance obj Model
     \<longrightarrow> visit_Assign g targets (Call callee args kws)
         = Inr (Assign targets (Call callee args kws)))
   \<and> (assigned_value g callee = Inl e
     \<longrightarrow> visit_Assign g targets (Call callee args kws) = Inl e)
   \<and> (g n = None
     \<longrightarrow> visit_Assign g targets (Call (Name n) args kws) = Inl (KeyError n))"
  by (simp add: visit_Assign_def assigned_value_def getitem_def)

text \<open>
  C3 does not hold of the code when the called identifier does not resolve. The builtin \<^verbatim>\<open>len\<close>
  and the parameter \<^verbatim>\<open>x\<close> of a model are no globals: for \<^verbatim>\<open>n = len(x)\<close> and for \<^verbatim>\<open>mu = x.mean()\<close>
  the lookup \<^verbatim>\<open>globals()[name]\<close> raises \<^verbatim>\<open>KeyError\<close>, nothing catches it, and the pass over a
  model that holds such an assignment fails with it. The claim asks for the statement to come
  back unchanged, as the call of \<^verbatim>\<open>tf.zeros\<close>, which resolves, does.
\<close>

theorem visit_Assign_unresolved_KeyError:
  "notebook_globals ''len'' = None \<and> notebook_globals ''x'' = None
   \<and> visit_Assign notebook_globals [Name ''n''] (Call (Name ''len'') [Name ''x''] [])
       = Inl (KeyError ''len'')
   \<and> visit_Assign notebook_globals [Name ''mu''] (Call (Attribute (Name ''x'') ''mean'') [] [])
       = Inl (KeyError ''x'')
   \<and> visit notebook_globals
       (FunctionDef ''model'' [''x'']
          [Assign [Name ''n''] (Call (Name ''len'') [Name ''x''] []),
           Assign [Name ''scale'']
             (Call (Attribute (Name ''tfd'') ''HalfCauchy'') [Num 0, Name ''n'']
                [(Some ''name'', Str ''scale'')]),
           Return (Some (Name ''scale''))]
          [Name ''Model''])
       = Inl (KeyError ''len'')
   \<and> visit_Assign notebook_globals [Name ''z'']
       (Call (Attribute (Name ''tf'') ''zeros'') [Name ''n''] [])
     = Inr (Assign [Name ''z''] (Call (Attribute (Name ''tf'') ''zeros'') [Name ''n''] []))"
  by (simp add: visit_Assign_def assigned_value_def getitem_def notebook_globals_def)


text \<open>
  C6 does not hold of the code when the \<^verbatim>\<open>Model\<close> is called by a dotted path: for
  \<^verbatim>\<open>coefs = zoo.Horseshoe(x)\<close> the called identifier resolves to a \<^verbatim>\<open>Model\<close>, and the rewrite
  raises \<^verbatim>\<open>AttributeError\<close>, since it reads \<^verbatim>\<open>.id\<close> of the called expression, which only a name
  has. The claim asks for \<^verbatim>\<open>coefs = yield from zoo.Horseshoe.model_generator(x)\<close>.
\<close>

theorem visit_Assign_Model_attribute:
  "assigned_value zoo_globals (Attribute (Name ''zoo'') ''Horseshoe'')
     = Inr (PyObj Model [(''model_generator'', PyObj OtherClass [])])
   \<and> visit_Assign zoo_globals [Name ''coefs'']
       (Call (Attribute (Name ''zoo'') ''Horseshoe'') [Name ''x''] [])
     = Inl (AttributeError ''id'')"
  by (simp add: visit_Assign_def assigned_value_def getitem_def zoo_globals_def
      notebook_globals_def)

text \<open>
  C5: an assignment whose right-hand side calls an identifier that resolves to a distribution
  class gets its call wrapped in one \<^verbatim>\<open>yield\<close>: the new right-hand side is the \<^verbatim>\<open>yield\<close> of the
  call as it was, one marker more than the call holds. After the pass every such assignment
  of the tree stands in its place with that one marker. An assignment whose right-hand side
  is no call is returned as it is, from \<^verbatim>\<open>visit_Assign\<close> and from the pass: the rewrite gives
  it no marker, so that it suspends nowhere its author did not write a \<^verbatim>\<open>yield\<close>.
\<close>

theorem visit_Assign_distribution:
  "(assigned_value g callee = Inr obj \<and> isinstance obj DistributionMeta
     \<longrightarrow> visit_Assign g targets (Call callee args kws)
           = Inr (Assign targets (Yield (Some (Call callee args kws))))
         \<and> markers (Yield (Some (Call callee args kws))) = Suc (markers (Call callee args kws)))
   \<and> (visit g s = Inr s'
     \<longrightarrow> length (assigns s') = length (assigns s)
         \<and> (\<forall>i targets' callee' args' kws' obj'.
              i < length (assigns s)
              \<and> assigns s ! i = Assign targets' (Call callee' args' kws')
              \<and> assigned_value g callee' = Inr obj' \<and> isinstance obj' DistributionMeta
              \<longrightarrow> assigns s' ! i = Assign targets' (Yield (Some (Call callee' args' kws'))))
         \<and> (\<forall>i. i < length (assigns s) \<and> \<not> is_Call (assigned (assigns s ! i))
              \<longrightarrow> assigns s' ! i = assigns s ! i))
   \<and> (\<not> is_Call v
     \<longrightarrow> visit_Assign g targets v = Inr (Assign targets v)
         \<and> (\<forall>t. visit_Assign g targets v = Inr t \<longrightarrow> markers (assigned t) = markers v))"
proof (intro conjI impI allI)
  assume "assigned_value g callee = Inr obj \<and> isinstance obj DistributionMeta"
  then show "visit_Assign g targets (Call callee args kws)
           = Inr (Assign targets (Yield (Some (Call callee args kws))))"
    by (simp add: visit_Assign_def)
next
  show "markers (Yield (Some (Call callee args kws))) = Suc (markers (Call callee args kws))"
    by simp
next
  assume "visit g s = Inr s'"
  then show "length (assigns s') = length (assigns s)"
    using visit_assigns(1) [of g s s'] by (simp add: list_all2_lengthD)
next
  fix i ts f xs ks ob
  assume v: "visit g s = Inr s'"
    and a: "i < length (assigns s)
              \<and> assigns s ! i = Assign ts (Call f xs ks)
              \<and> assigned_value g f = Inr ob \<and> isinstance ob DistributionMeta"
  from v have "list_all2 (\<lambda>a a'. visit g a = Inr a') (assigns s) (assigns s')"
    by (rule visit_assigns(1))
  from list_all2_nthD [OF this, of i] a
  have "visit g (assigns s ! i) = Inr (assigns s' ! i)"
    by blast
  with a show "assigns s' ! i = Assign ts (Yield (Some (Call f xs ks)))"
    by (simp add: visit_Assign_def)
next
  fix i
  assume v: "visit g s = Inr s'"
    and a: "i < length (assigns s) \<and> \<not> is_Call (assigned (assigns s ! i))"
  from v have "list_all2 (\<lambda>a a'. visit g a = Inr a') (assigns s) (assigns s')"
    by (rule visit_assigns(1))
  from list_all2_nthD [OF this, of i] a
  have r: "visit g (assigns s ! i) = Inr (assigns s' ! i)"
    by blast
  from a obtain ts w where w: "assigns s ! i = Assign ts w"
    using assigns_are_Assign(1) [of "assigns s ! i" s] by auto
  with a have "\<not> is_Call w" by simp
  with r w show "assigns s' ! i = assigns s ! i"
    by (simp add: visit_not_Call)
next
  assume "\<not> is_Call v"
  then show "visit_Assign g targets v = Inr (Assign targets v)"
    by (rule visit_not_Call)
next
  fix t
  assume "\<not> is_Call v" and "visit_Assign g targets v = Inr t"
  then show "markers (assigned t) = markers v"
    by (auto simp: visit_not_Call)
qed

theorem visit_Assign_distribution_witness:
  "visit_Assign notebook_globals [Name ''scale'']
       (Call (Attribute (Name ''tfd'') ''HalfCauchy'') [Num 0, Num 1]
          [(Some ''name'', Str ''scale'')])
     = Inr (Assign [Name ''scale'']
         (Yield (Some (Call (Attribute (Name ''tfd'') ''HalfCauchy'') [Num 0, Num 1]
            [(Some ''name'', Str ''scale'')]))))
   \<and> visit notebook_globals regularized = Inr regularized_generator
   \<and> length (assigns regularized_generator) = 4
   \<and> assigns regularized_generator ! 0
     = Assign [Name ''scale'']
         (Yield (Some (Call (Attribute (Name ''tfd'') ''HalfCauchy'') [Num 0, Num 1]
            [(Some ''name'', Str ''scale'')])))
   \<and> assigns regularized_generator ! 2 = Assign [Name ''n''] (Num 10)
   \<and> visit_Assign notebook_globals [Name ''n''] (Num 10) = Inr (Assign [Name ''n''] (Num 10))"
proof -
  have v: "visit notebook_globals regularized = Inr regularized_generator"
    by (simp add: regularized_def regularized_generator_def visit_Assign_def
        assigned_value_def getitem_def notebook_globals_def)
  have a: "assigned_value notebook_globals (Attribute (Name ''tfd'') ''HalfCauchy'')
      = Inr (PyObj DistributionMeta [])"
    by (simp add: assigned_value_def getitem_def notebook_globals_def)
  have n: "length (assigns regularized) = 4"
    "assigns regularized ! 0
      = Assign [Name ''scale'']
         (Call (Attribute (Name ''tfd'') ''HalfCauchy'') [Num 0, Num 1]
            [(Some ''name'', Str ''scale'')])"
    "assigns regularized ! 2 = Assign [Name ''n''] (Num 10)"
    by (simp_all add: regularized_def)
  note t = visit_Assign_distribution [where g = notebook_globals
      and callee = "Attribute (Name ''tfd'') ''HalfCauchy''" and obj = "PyObj DistributionMeta []"
      and targets = "[Name ''scale'']" and args = "[Num 0, Num 1]"
      and kws = "[(Some ''name'', Str ''scale'')]"
      and s = regularized and s' = regularized_generator and v = "Num 10"]
  from t a have 1: "visit_Assign notebook_globals [Name ''scale'']
       (Call (Attribute (Name ''tfd'') ''HalfCauchy'') [Num 0, Num 1]
          [(Some ''name'', Str ''scale'')])
     = Inr (Assign [Name ''scale'']
         (Yield (Some (Call (Attribute (Name ''tfd'') ''HalfCauchy'') [Num 0, Num 1]
            [(Some ''name'', Str ''scale'')]))))"
    by simp
  from t v n have 2: "length (assigns regularized_generator) = 4"
    by simp
  from t v have "\<forall>i targets' callee' args' kws' obj'.
      i < length (assigns regularized)
      \<and> assigns regularized ! i = Assign targets' (Call callee' args' kws')
      \<and> assigned_value notebook_globals callee' = Inr obj' \<and> isinstance obj' DistributionMeta
      \<longrightarrow> assigns regularized_generator ! i
          = Assign targets' (Yield (Some (Call callee' args' kws')))"
    by blast
  with n a have 3: "assigns regularized_generator ! 0
     = Assign [Name ''scale'']
         (Yield (Some (Call (Attribute (Name ''tfd'') ''HalfCauchy'') [Num 0, Num 1]
            [(Some ''name'', Str ''scale'')])))"
    by simp
  from t v have "\<forall>i. i < length (assigns regularized)
        \<and> \<not> is_Call (assigned (assigns regularized ! i))
      \<longrightarrow> assigns regularized_generator ! i = assigns regularized ! i"
    by blast
  with n have 4: "assigns regularized_generator ! 2 = Assign [Name ''n''] (Num 10)"
    by simp
  from visit_Assign_distribution [where v = "Num 10" and targets = "[Name ''n'']"
      and g = notebook_globals]
  have 5: "visit_Assign notebook_globals [Name ''n''] (Num 10) = Inr (Assign [Name ''n''] (Num 10))"
    by simp
  from 1 v 2 3 4 5 show ?thesis by simp
qed

text \<open>What \<^verbatim>\<open>visit_Assign\<close> returns, it returns again when the result is visited.\<close>

lemma visit_Assign_twice:
  "visit_Assign g targets v = Inr s' \<Longrightarrow> visit g s' = Inr s'"
  by (auto simp: visit_Assign_def split: expr.splits sum.splits if_splits)

lemma visit_twice:
  "visit g s = Inr s' \<Longrightarrow> visit g s' = Inr s'"
  "visit_list g ss = Inr ss' \<Longrightarrow> visit_list g ss' = Inr ss'"
proof (induction g s and g ss arbitrary: s' and ss' rule: visit_visit_list.induct)
  case (1 g targets v)
  then show ?case by (simp add: visit_Assign_twice)
next
  case (2 g n args b decorator_list)
  from "2.prems" obtain b' where b: "visit_list g b = Inr b'"
    and s: "s' = FunctionDef ''_model_generator'' args b' []"
    by (auto split: sum.splits)
  from "2.IH" [OF b] s show ?case by simp
next
  case (3 g items b)
  from "3.prems" obtain b' where b: "visit_list g b = Inr b'" and s: "s' = With items b'"
    by (auto split: sum.splits)
  from "3.IH" [OF b] s show ?case by simp
next
  case (4 g test b orelse)
  from "4.prems" obtain b' orelse' where b: "visit_list g b = Inr b'"
    and c: "visit_list g orelse = Inr orelse'" and s: "s' = If test b' orelse'"
    by (auto split: sum.splits)
  from "4.IH"(1) [OF b] "4.IH"(2) [OF b c] s show ?case by simp
next
  case (5 g target iter b orelse)
  from "5.prems" obtain b' orelse' where b: "visit_list g b = Inr b'"
    and c: "visit_list g orelse = Inr orelse'" and s: "s' = For target iter b' orelse'"
    by (auto split: sum.splits)
  from "5.IH"(1) [OF b] "5.IH"(2) [OF b c] s show ?case by simp
next
  case (6 g test b orelse)
  from "6.prems" obtain b' orelse' where b: "visit_list g b = Inr b'"
    and c: "visit_list g orelse = Inr orelse'" and s: "s' = While test b' orelse'"
    by (auto split: sum.splits)
  from "6.IH"(1) [OF b] "6.IH"(2) [OF b c] s show ?case by simp
next
  case (13 g s ss)
  from "13.prems" obtain t ts where b: "visit g s = Inr t"
    and c: "visit_list g ss = Inr ts" and s: "ss' = t # ts"
    by (auto split: sum.splits)
  from "13.IH"(1) [OF b] "13.IH"(2) [OF b c] s show ?case by simp
qed auto

text \<open>
  When every assigned value is a \<^verbatim>\<open>yield\<close> or a \<^verbatim>\<open>yield from\<close> already, the pass changes the
  function definitions only.
\<close>

lemma visit_markers:
  "list_all (\<lambda>a. is_marker (assigned a)) (assigns s) \<Longrightarrow> visit g s = Inr (renamed s)"
  "list_all (\<lambda>a. is_marker (assigned a)) (assigns_list ss) \<Longrightarrow>
     visit_list g ss = Inr (renamed_list ss)"
proof (induction g s and g ss rule: visit_visit_list.induct)
  case (1 g targets v)
  then show ?case by (cases v) (simp_all add: visit_Assign_def)
qed simp_all

lemma assigns_renamed:
  "assigns (renamed s) = assigns s"
  "assigns_list (renamed_list ss) = assigns_list ss"
  by (induction s and ss rule: assigns_assigns_list.induct) simp_all

text \<open>
  C4, as the claim states it, fails: the model of the notebook that is written with \<^verbatim>\<open>yield\<close>
  comes back under the name \<^verbatim>\<open>_model_generator\<close> and without its decorator, which is not the
  tree that went in.
\<close>

theorem visit_renames_counterexample:
  "list_all (\<lambda>a. is_marker (assigned a)) (assigns with_yields)
   \<and> visit notebook_globals with_yields
     = Inr (FunctionDef ''_model_generator'' [''x'']
         [Assign [Name ''scale'']
            (Yield (Some (Call (Attribute (Name ''tfd'') ''HalfCauchy'') [Num 0, Num 1]
               [(Some ''name'', Str ''scale'')]))),
          Return (Some (Name ''scale''))]
         [])
   \<and> visit notebook_globals with_yields \<noteq> Inr with_yields"
  by (simp add: with_yields_def visit_Assign_def)

text \<open>
  C4, amended: for a function definition whose assigned values are all \<^verbatim>\<open>yield\<close> or
  \<^verbatim>\<open>yield from\<close> forms, the pass returns the tree with its function definitions renamed to
  \<^verbatim>\<open>_model_generator\<close> and stripped of their decorators and with nothing else changed: every
  assignment is as it was, none is wrapped a second time. Applying the pass to any result of
  the pass returns that result: the rewrite applied twice equals the rewrite applied once.
\<close>

theorem visit_idempotent:
  "(list_all (\<lambda>a. is_marker (assigned a)) (assigns s)
     \<longrightarrow> visit g s = Inr (renamed s) \<and> assigns (renamed s) = assigns s)
   \<and> (visit g s = Inr s' \<longrightarrow> visit g s' = Inr s')"
  by (simp add: visit_markers(1) assigns_renamed(1) visit_twice(1))

theorem visit_idempotent_witness:
  "visit notebook_globals with_yields = Inr (renamed with_yields)
   \<and> assigns (renamed with_yields) = assigns with_yields
   \<and> visit notebook_globals (renamed with_yields) = Inr (renamed with_yields)"
proof -
  have m: "list_all (\<lambda>a. is_marker (assigned a)) (assigns with_yields)"
    by (simp add: with_yields_def)
  have v: "visit notebook_globals with_yields = Inr (renamed with_yields)"
    using visit_idempotent [of with_yields notebook_globals] m by simp
  show ?thesis
    using visit_idempotent [of with_yields notebook_globals "renamed with_yields"] m v by simp
qed

text \<open>
  The visitor of \<^verbatim>\<open>00-prototype\<close> wraps whatever is assigned, a \<^verbatim>\<open>yield\<close> included: it is not
  idempotent.
\<close>

lemma visit_Assign_prototype_wraps_again:
  "visit_Assign_prototype targets (Yield (Some v)) = Assign targets (Yield (Some (Yield (Some v))))"
  by (simp add: visit_Assign_prototype_def)

subsection \<open>interact\<close>




text \<open>Storing under a key that a dictionary does not hold appends the key.\<close>

lemma update_fresh: "k \<notin> set (map fst al) \<Longrightarrow> AList.update k v al = al @ [(k, v)]"
  by (induction al) auto

lemma map_of_fresh: "k \<notin> set (map fst al) \<Longrightarrow> map_of (al @ [(k, v)]) k = Some v"
  by (induction al) auto

lemma interact_loop_stop:
  "loop_body pd g st rng = Inl out \<Longrightarrow> interact_loop pd g st rng = Some out"
  by (subst interact_loop.simps) simp

lemma interact_loop_step:
  "loop_body pd g st rng = Inr (g', st', rng') \<Longrightarrow>
   interact_loop pd g st rng = interact_loop pd g' st' rng'"
  by (subst interact_loop.simps) simp

lemma interact_loop_StopIteration:
  "interact_loop pd (StopIteration args) st rng = Some (Inr (stop_value args), st, rng)"
  by (rule interact_loop_stop) (simp add: loop_body_def)

text \<open>A distribution under a name that is not yet in \<^verbatim>\<open>state["dists"]\<close>.\<close>

lemma loop_body_fresh:
  "name d \<notin> set (map fst (dists st)) \<Longrightarrow>
   loop_body pd (Yields d send throw) st rng =
     (case map_of (samples st) (name d) of
        Some v \<Rightarrow> Inr (send v, st\<lparr>dists := dists st @ [(name d, d)]\<rparr>, rng)
      | None \<Rightarrow>
          Inr (send (fst (sample d rng)),
               st\<lparr>samples := samples st @ [(name d, fst (sample d rng))],
                  dists := dists st @ [(name d, d)]\<rparr>,
               snd (sample d rng)))"
proof (cases "map_of (samples st) (name d)")
  case None
  assume unseen: "name d \<notin> set (map fst (dists st))"
  from None have "name d \<notin> set (map fst (samples st))"
    by (simp add: map_of_eq_None_iff)
  with unseen None show ?thesis
    by (simp add: loop_body_def update_fresh split: prod.splits)
next
  case (Some v)
  assume "name d \<notin> set (map fst (dists st))"
  with Some show ?thesis
    by (simp add: loop_body_def update_fresh)
qed





text \<open>
  C1 does not hold of the code. The generator \<open>twice\<close> yields the name \<^verbatim>\<open>a\<close> a second time.
  In the notebooks, where \<^verbatim>\<open>preds_dist\<close> is unbound, the run ends with \<^verbatim>\<open>NameError\<close>, which
  carries neither the name \<^verbatim>\<open>a\<close> nor the names seen; where \<^verbatim>\<open>preds_dist\<close> is bound to some
  distribution, the exception carries the name of that distribution (here \<^verbatim>\<open>b\<close>) and not the
  repeated name. In both runs nothing after the repeated name is resolved and the state holds
  the first occurrence only.
\<close>

theorem interact_duplicate_NameError:
  "interact None (\<lambda>u. twice) fresh 0
     = Some (Inl (NameError ''preds_dist''),
         \<lparr>dists = [(''a'', draws ''a'')], samples = [(''a'', PyVal 0)]\<rparr>, 1)
   \<and> interact (Some (draws ''b'')) (\<lambda>u. twice) fresh 0
     = Some (Inl (DuplicateNames ''b'' {''a''}),
         \<lparr>dists = [(''a'', draws ''a'')], samples = [(''a'', PyVal 0)]\<rparr>, 1)"
  by (simp add: interact_def twice_def fresh_def draws_def interact_loop.simps loop_body_def)

text \<open>
  C7: for a yielded distribution whose name is not yet in \<^verbatim>\<open>state["dists"]\<close>, one pass of the
  loop resolves it to a value \<open>v\<close> and resumes the generator with \<open>v\<close> in a state that holds
  the distribution and \<open>v\<close> under its name. When \<^verbatim>\<open>state["samples"]\<close> holds a value for the
  name, \<open>v\<close> is that value and nothing is drawn: the source of randomness and the samples are
  as before. Otherwise \<open>v\<close> is what \<^verbatim>\<open>sample\<close> of the distribution draws, and it is stored
  under the name.
\<close>

theorem interact_resolves:
  assumes "name d \<notin> set (map fst (dists st))"
  shows "\<exists>v st1 rng1.
      iteration pd (Yields d send throw, st, rng) (send v, st1, rng1)
    \<and> interact_loop pd (Yields d send throw) st rng = interact_loop pd (send v) st1 rng1
    \<and> (case map_of (samples st) (name d) of
         Some w \<Rightarrow> v = w \<and> rng1 = rng \<and> samples st1 = samples st
       | None \<Rightarrow> (v, rng1) = sample d rng \<and> samples st1 = samples st @ [(name d, v)])
    \<and> dists st1 = dists st @ [(name d, d)]
    \<and> map_of (samples st1) (name d) = Some v
    \<and> map_of (dists st1) (name d) = Some d"
proof (cases "map_of (samples st) (name d)")
  case None
  let ?v = "fst (sample d rng)"
  let ?st = "st\<lparr>samples := samples st @ [(name d, ?v)], dists := dists st @ [(name d, d)]\<rparr>"
  from assms None
  have b: "loop_body pd (Yields d send throw) st rng = Inr (send ?v, ?st, snd (sample d rng))"
    by (simp add: loop_body_fresh)
  from None have "name d \<notin> set (map fst (samples st))"
    by (simp add: map_of_eq_None_iff)
  then have "map_of (samples st @ [(name d, ?v)]) (name d) = Some ?v"
    by (rule map_of_fresh)
  moreover from assms have "map_of (dists st @ [(name d, d)]) (name d) = Some d"
    by (rule map_of_fresh)
  ultimately show ?thesis
    using b None
    by (intro exI [of _ ?v] exI [of _ ?st] exI [of _ "snd (sample d rng)"])
      (simp add: iteration_def interact_loop_step [OF b])
next
  case (Some w)
  let ?st = "st\<lparr>dists := dists st @ [(name d, d)]\<rparr>"
  from assms Some
  have b: "loop_body pd (Yields d send throw) st rng = Inr (send w, ?st, rng)"
    by (simp add: loop_body_fresh)
  from assms have "map_of (dists st @ [(name d, d)]) (name d) = Some d"
    by (rule map_of_fresh)
  then show ?thesis
    using b Some
    by (intro exI [of _ w] exI [of _ ?st] exI [of _ rng])
      (simp add: iteration_def interact_loop_step [OF b])
qed

text \<open>
  The nested model run with an observation for \<^verbatim>\<open>coefs_noise\<close>: the first name is drawn, the
  second takes the observed value 7 and leaves the source of randomness alone.
\<close>

theorem interact_resolves_witness:
  "iteration None (horseshoe, observed, 0)
     (Yields (draws ''coefs_noise'') (\<lambda>noise. StopIteration (Some noise)) Raises,
      \<lparr>dists = [(''coefs_scale'', draws ''coefs_scale'')],
        samples = [(''coefs_noise'', PyVal 7), (''coefs_scale'', PyVal 0)]\<rparr>, 1)
   \<and> iteration None
     (Yields (draws ''coefs_noise'') (\<lambda>noise. StopIteration (Some noise)) Raises,
      \<lparr>dists = [(''coefs_scale'', draws ''coefs_scale'')],
        samples = [(''coefs_noise'', PyVal 7), (''coefs_scale'', PyVal 0)]\<rparr>, 1)
     (StopIteration (Some (PyVal 7)),
      \<lparr>dists =
         [(''coefs_scale'', draws ''coefs_scale''), (''coefs_noise'', draws ''coefs_noise'')],
        samples = [(''coefs_noise'', PyVal 7), (''coefs_scale'', PyVal 0)]\<rparr>, 1)"
proof -
  let ?send1 =
    "\<lambda>scale. Yields (draws ''coefs_noise'') (\<lambda>noise. StopIteration (Some noise)) Raises"
  let ?send2 = "\<lambda>noise. StopIteration (Some noise) :: (int, nat) gen"
  let ?st1 = "\<lparr>dists = [(''coefs_scale'', draws ''coefs_scale'')],
        samples = [(''coefs_noise'', PyVal 7), (''coefs_scale'', PyVal (0::int))]\<rparr>
      :: (int, nat) state"
  have f1: "name (draws ''coefs_scale'') \<notin> set (map fst (dists observed))"
    by (simp add: observed_def)
  have f2: "name (draws ''coefs_noise'') \<notin> set (map fst (dists ?st1))"
    by (simp add: draws_def)
  from interact_resolves [OF f1, of None ?send1 Raises 0]
  obtain v st1 rng1
    where "iteration None (Yields (draws ''coefs_scale'') ?send1 Raises, observed, 0)
        (?send1 v, st1, rng1)"
      and "(v, rng1) = sample (draws ''coefs_scale'') 0"
      and "samples st1 = samples observed @ [(''coefs_scale'', v)]"
      and "dists st1 = dists observed @ [(''coefs_scale'', draws ''coefs_scale'')]"
    by (auto simp: observed_def draws_def)
  then have 1: "iteration None (Yields (draws ''coefs_scale'') ?send1 Raises, observed, 0)
      (?send1 (PyVal 0), ?st1, 1)"
    by (cases st1) (simp add: observed_def draws_def)
  from interact_resolves [OF f2, of None ?send2 Raises 1]
  obtain w st2 rng2
    where "iteration None (Yields (draws ''coefs_noise'') ?send2 Raises, ?st1, 1)
        (?send2 w, st2, rng2)"
      and "w = PyVal 7" and "rng2 = 1"
      and "samples st2 = samples ?st1"
      and "dists st2 = dists ?st1 @ [(''coefs_noise'', draws ''coefs_noise'')]"
    by (auto simp: draws_def)
  then have 2: "iteration None (Yields (draws ''coefs_noise'') ?send2 Raises, ?st1, 1)
      (?send2 (PyVal 7),
       \<lparr>dists =
          [(''coefs_scale'', draws ''coefs_scale''), (''coefs_noise'', draws ''coefs_noise'')],
        samples = [(''coefs_noise'', PyVal 7), (''coefs_scale'', PyVal 0)]\<rparr>, 1)"
    by (cases st2) simp
  from 1 2 show ?thesis by (simp add: horseshoe_def)
qed

text \<open>Passes of the loop leave what \<^verbatim>\<open>interact\<close> returns as it is.\<close>

lemma iteration_interact_loop:
  "iteration pd x y \<Longrightarrow>
   interact_loop pd (fst x) (fst (snd x)) (snd (snd x))
     = interact_loop pd (fst y) (fst (snd y)) (snd (snd y))"
  by (cases y) (simp add: iteration_def interact_loop_step)

lemma iterations_interact_loop:
  "(iteration pd)\<^sup>*\<^sup>* x y \<Longrightarrow>
   interact_loop pd (fst x) (fst (snd x)) (snd (snd x))
     = interact_loop pd (fst y) (fst (snd y)) (snd (snd y))"
  by (induction rule: rtranclp_induct) (simp_all add: iteration_interact_loop)

text \<open>
  C10: when, after any number of passes of the loop, the generator returns without a value
  (\<^verbatim>\<open>StopIteration\<close> has no argument), \<^verbatim>\<open>interact\<close> returns, and what it returns is \<^verbatim>\<open>None\<close>
  together with the state as the passes have left it.
\<close>

theorem interact_returns_None:
  assumes "(iteration pd)\<^sup>*\<^sup>* (gen (), st, rng) (StopIteration None, st', rng')"
  shows "interact pd gen st rng = Some (Inr PyNone, st', rng')"
  using iterations_interact_loop [OF assms]
  by (simp add: interact_def interact_loop_StopIteration stop_value_def)

theorem interact_returns_None_witness:
  "interact None (\<lambda>u. no_return) fresh 0
     = Some (Inr PyNone,
         \<lparr>dists = [(''scale'', draws ''scale'')], samples = [(''scale'', PyVal 0)]\<rparr>, 1)"
proof -
  have "iteration None (no_return, fresh, 0)
      (StopIteration None,
       \<lparr>dists = [(''scale'', draws ''scale'')], samples = [(''scale'', PyVal 0)]\<rparr>, 1)"
    by (simp add: iteration_def loop_body_def no_return_def fresh_def draws_def)
  then have "(iteration None)\<^sup>*\<^sup>* ((\<lambda>u. no_return) (), fresh, 0)
      (StopIteration None,
       \<lparr>dists = [(''scale'', draws ''scale'')], samples = [(''scale'', PyVal 0)]\<rparr>, 1)"
    by (simp add: r_into_rtranclp)
  then show ?thesis by (rule interact_returns_None)
qed

subsection \<open>Delegation to a nested model\<close>






























end
